theory Spec2Isabelle
  imports Main "HOL-Library.Word"
begin

unbundle bit_operations_syntax

section \<open>Python values used by the server\<close>

text \<open>
  The exceptions the modelled code can raise. All of them derive from Python's
  \<^verbatim>\<open>Exception\<close>, so the handler \<^verbatim>\<open>except Exception\<close> catches each of them.
  \<open>NameError n\<close> is raised when the free name \<open>n\<close> is looked up and is bound neither
  locally, nor in the module's globals, nor in the builtins. \<open>AttributeError a\<close> is raised
  when the attribute \<open>a\<close> is read on an object that has none of that name, or assigned
  on an object that does not allow the assignment. \<open>TypeError\<close> is raised by arithmetic
  on \<^verbatim>\<open>None\<close>. \<open>OtherError\<close> stands for any other exception of a collaborator (the
  messaging client, the database session, the client connection).
\<close>

datatype pyexn =
    NameError string
  | AttributeError string
  | TypeError
  | ValueError
  | MessageNotFound
  | OtherError string

subsection \<open>Strings\<close>

text \<open>
  Strings are lists of characters; header values and path segments are taken to be ASCII.
  \<open>str_replace old new s\<close> is \<^verbatim>\<open>s.replace(old, new)\<close> for a non-empty \<open>old\<close>: every
  non-overlapping occurrence, scanning from the left. The counter says how many
  characters of a matched occurrence are still to be skipped.
\<close>

fun replace_from :: "string \<Rightarrow> string \<Rightarrow> nat \<Rightarrow> string \<Rightarrow> string" where
  "replace_from old new k [] = []"
| "replace_from old new (Suc k) (c # cs) = replace_from old new k cs"
| "replace_from old new 0 (c # cs) =
     (if take (length old) (c # cs) = old
      then new @ replace_from old new (length old - 1) cs
      else c # replace_from old new 0 cs)"

definition str_replace :: "string \<Rightarrow> string \<Rightarrow> string \<Rightarrow> string" where
  "str_replace old new s = replace_from old new 0 s"

text \<open>\<^verbatim>\<open>s.split(sep)\<close> for a one-character separator: never an empty list.\<close>

fun str_split :: "char \<Rightarrow> string \<Rightarrow> string list" where
  "str_split sep [] = [[]]"
| "str_split sep (c # cs) =
     (if c = sep then [] # str_split sep cs
      else (case str_split sep cs of
              [] \<Rightarrow> [[c]]
            | p # ps \<Rightarrow> (c # p) # ps))"

subsection \<open>Integers and their decimal form\<close>

definition digit_chars :: string where
  "digit_chars = ''0123456789''"

definition is_digit :: "char \<Rightarrow> bool" where
  "is_digit c = (c \<in> set digit_chars)"

fun index_of :: "char \<Rightarrow> string \<Rightarrow> nat" where
  "index_of c [] = 0"
| "index_of c (d # ds) = (if c = d then 0 else Suc (index_of c ds))"

definition digit_val :: "char \<Rightarrow> nat" where
  "digit_val c = index_of c digit_chars"

text \<open>
  The ASCII characters \<^verbatim>\<open>int()\<close> strips from both ends of a string: tab, line feed,
  vertical tab, form feed, carriage return (9 to 13) and space (32).
\<close>

definition is_space :: "char \<Rightarrow> bool" where
  "is_space c = (let n = (of_char c :: nat) in (9 \<le> n \<and> n \<le> 13) \<or> n = 32)"

definition str_strip :: "string \<Rightarrow> string" where
  "str_strip s = rev (dropWhile is_space (rev (dropWhile is_space s)))"

text \<open>
  The digits of a decimal literal after its first digit: digits, with single underscores
  allowed between two digits.
\<close>

fun parse_digits :: "nat \<Rightarrow> string \<Rightarrow> nat option" where
  "parse_digits acc [] = Some acc"
| "parse_digits acc [c] =
     (if is_digit c then Some (10 * acc + digit_val c) else None)"
| "parse_digits acc (c # d # ds) =
     (if is_digit c then parse_digits (10 * acc + digit_val c) (d # ds)
      else if c = CHR ''_'' \<and> is_digit d then parse_digits (10 * acc + digit_val d) ds
      else None)"

definition parse_decimal :: "string \<Rightarrow> nat option" where
  "parse_decimal s =
     (case s of
        [] \<Rightarrow> None
      | c # cs \<Rightarrow> if is_digit c then parse_digits (digit_val c) cs else None)"

text \<open>
  \<^verbatim>\<open>int(s)\<close> for an ASCII string: surrounding whitespace is stripped, one sign is
  allowed, and anything that is not a decimal literal raises \<^verbatim>\<open>ValueError\<close>, the only
  exception of the conversion. Two things \<^verbatim>\<open>int()\<close> does are left out: the interpreter
  refuses a literal of more than 4300 digits (a limit that can be configured away), and
  it also reads the decimal digits and spaces that Unicode has beyond ASCII. On a string
  of ASCII characters with at most 4300 digits \<open>py_int\<close> is \<^verbatim>\<open>int()\<close>.
\<close>

definition py_int :: "string \<Rightarrow> pyexn + int" where
  "py_int s =
     (let t = str_strip s;
          neg = (case t of [] \<Rightarrow> False | c # _ \<Rightarrow> c = CHR ''-'');
          r = (case t of [] \<Rightarrow> [] | c # cs \<Rightarrow> if c = CHR ''-'' \<or> c = CHR ''+'' then cs else t)
      in case parse_decimal r of
           None \<Rightarrow> Inl ValueError
         | Some n \<Rightarrow> Inr (if neg then - int n else int n))"

text \<open>\<^verbatim>\<open>str(n)\<close> for an integer.\<close>

fun str_nat :: "nat \<Rightarrow> string" where
  "str_nat n =
     (if n < 10 then [digit_chars ! n]
      else str_nat (n div 10) @ [digit_chars ! (n mod 10)])"

declare str_nat.simps [simp del]

definition str_int :: "int \<Rightarrow> string" where
  "str_int i = (if i < 0 then CHR ''-'' # str_nat (nat (- i)) else str_nat (nat i))"

section \<open>The digest behind the integrity token\<close>

text \<open>
  \<^verbatim>\<open>utils.get_hash\<close> calls \<^verbatim>\<open>hashlib.md5\<close>. The library function is modelled after
  RFC 1321: 512-bit blocks of sixteen little-endian 32-bit words, four rounds of sixteen
  steps, the digest read out as sixteen bytes and printed as lower-case hexadecimal.
\<close>

type_synonym md5_state = "32 word \<times> 32 word \<times> 32 word \<times> 32 word"

definition md5_shifts :: "nat list" where
  "md5_shifts =
     concat (replicate 4 [7, 12, 17, 22]) @ concat (replicate 4 [5, 9, 14, 20]) @
     concat (replicate 4 [4, 11, 16, 23]) @ concat (replicate 4 [6, 10, 15, 21])"

definition md5_K :: "32 word list" where
  "md5_K =
    [0xd76aa478, 0xe8c7b756, 0x242070db, 0xc1bdceee, 0xf57c0faf, 0x4787c62a, 0xa8304613, 0xfd469501,
     0x698098d8, 0x8b44f7af, 0xffff5bb1, 0x895cd7be, 0x6b901122, 0xfd987193, 0xa679438e, 0x49b40821,
     0xf61e2562, 0xc040b340, 0x265e5a51, 0xe9b6c7aa, 0xd62f105d, 0x02441453, 0xd8a1e681, 0xe7d3fbc8,
     0x21e1cde6, 0xc33707d6, 0xf4d50d87, 0x455a14ed, 0xa9e3e905, 0xfcefa3f8, 0x676f02d9, 0x8d2a4c8a,
     0xfffa3942, 0x8771f681, 0x6d9d6122, 0xfde5380c, 0xa4beea44, 0x4bdecfa9, 0xf6bb4b60, 0xbebfbc70,
     0x289b7ec6, 0xeaa127fa, 0xd4ef3085, 0x04881d05, 0xd9d4d039, 0xe6db99e5, 0x1fa27cf8, 0xc4ac5665,
     0xf4292244, 0x432aff97, 0xab9423a7, 0xfc93a039, 0x655b59c3, 0x8f0ccc92, 0xffeff47d, 0x85845dd1,
     0x6fa87e4f, 0xfe2ce6e0, 0xa3014314, 0x4e0811a1, 0xf7537e82, 0xbd3af235, 0x2ad7d2bb, 0xeb86d391]"

definition md5_init :: md5_state where
  "md5_init = (0x67452301, 0xefcdab89, 0x98badcfe, 0x10325476)"

definition md5_pad :: "8 word list \<Rightarrow> 8 word list" where
  "md5_pad bs =
     bs @ [0x80] @ replicate ((119 - length bs mod 64) mod 64) 0 @
     map (\<lambda>i. ucast (drop_bit (8 * i) (8 * (of_nat (length bs) :: 64 word)))) [0..<8]"

definition word_of_le :: "8 word list \<Rightarrow> 32 word" where
  "word_of_le bs = foldr (\<lambda>b w. ucast b OR push_bit 8 w) bs 0"

definition word_le_bytes :: "32 word \<Rightarrow> 8 word list" where
  "word_le_bytes w = map (\<lambda>i. ucast (drop_bit (8 * i) w)) [0..<4]"

definition chunks :: "nat \<Rightarrow> 'a list \<Rightarrow> 'a list list" where
  "chunks n xs = map (\<lambda>i. take n (drop (i * n) xs)) [0..<length xs div n]"

definition md5_step :: "32 word list \<Rightarrow> md5_state \<Rightarrow> nat \<Rightarrow> md5_state" where
  "md5_step M st i =
     (case st of (a, b, c, d) \<Rightarrow>
        let f = (if i < 16 then (b AND c) OR (NOT b AND d)
                 else if i < 32 then (d AND b) OR (NOT d AND c)
                 else if i < 48 then b XOR c XOR d
                 else c XOR (b OR NOT d));
            g = (if i < 16 then i
                 else if i < 32 then (5 * i + 1) mod 16
                 else if i < 48 then (3 * i + 5) mod 16
                 else (7 * i) mod 16);
            f' = f + a + md5_K ! i + M ! g
        in (d, b + word_rotl (md5_shifts ! i) f', b, c))"

definition md5_block :: "md5_state \<Rightarrow> 8 word list \<Rightarrow> md5_state" where
  "md5_block st blk =
     (case st of (a0, b0, c0, d0) \<Rightarrow>
        case foldl (md5_step (map word_of_le (chunks 4 blk))) st [0..<64] of
          (a, b, c, d) \<Rightarrow> (a0 + a, b0 + b, c0 + c, d0 + d))"

definition md5_digest :: "8 word list \<Rightarrow> 8 word list" where
  "md5_digest bs =
     (case foldl md5_block md5_init (chunks 64 (md5_pad bs)) of
        (a, b, c, d) \<Rightarrow> concat (map word_le_bytes [a, b, c, d]))"

definition hex_chars :: string where
  "hex_chars = ''0123456789abcdef''"

definition hex_byte :: "8 word \<Rightarrow> string" where
  "hex_byte b = [hex_chars ! (unat b div 16), hex_chars ! (unat b mod 16)]"

text \<open>
  \<^verbatim>\<open>hashlib.md5(s.encode()).hexdigest()\<close>: the characters of the string are its bytes
  (ASCII identifiers; a character beyond ASCII is already its UTF-8 bytes).
\<close>

definition md5_hexdigest :: "string \<Rightarrow> string" where
  "md5_hexdigest s = concat (map hex_byte (md5_digest (map of_char s)))"

section \<open>The range parser\<close>

text \<open>
  The body of the \<^verbatim>\<open>try\<close> block of \<^verbatim>\<open>WebServer._parse_range\<close> (server.py):
  \<^verbatim>\<open>
    range_value = range_header.replace('bytes=', '')
    from_bytes, to_bytes = range_value.split('-')
    from_bytes = int(from_bytes) if from_bytes else 0
    to_bytes = int(to_bytes) if to_bytes else file_size - 1
    return max(0, from_bytes), min(to_bytes, file_size - 1)
  \<close>
  Unpacking a list that has not exactly two elements raises \<^verbatim>\<open>ValueError\<close>, as does
  \<^verbatim>\<open>int\<close> on a part that is no integer literal.
\<close>

definition parse_range_try :: "string \<Rightarrow> int \<Rightarrow> pyexn + (int \<times> int)" where
  "parse_range_try range_header file_size =
     (let range_value = str_replace ''bytes='' '''' range_header in
      case str_split CHR ''-'' range_value of
        [from_s, to_s] \<Rightarrow>
          (case (if from_s \<noteq> [] then py_int from_s else Inr 0) of
             Inl e \<Rightarrow> Inl e
           | Inr from_bytes \<Rightarrow>
               (case (if to_s \<noteq> [] then py_int to_s else Inr (file_size - 1)) of
                  Inl e \<Rightarrow> Inl e
                | Inr to_bytes \<Rightarrow> Inr (max 0 from_bytes, min to_bytes (file_size - 1))))
      | _ \<Rightarrow> Inl ValueError)"

text \<open>
  \<^verbatim>\<open>_parse_range\<close> itself: any exception of the block above falls back to the whole
  file, \<^verbatim>\<open>return 0, file_size - 1\<close>. (Isabelle identifiers cannot start with an
  underscore, hence \<open>parse_range\<close>.)
\<close>

definition parse_range :: "string \<Rightarrow> int \<Rightarrow> int \<times> int" where
  "parse_range range_header file_size =
     (case parse_range_try range_header file_size of
        Inr r \<Rightarrow> r
      | Inl e \<Rightarrow> (0, file_size - 1))"

section \<open>Messages and the integrity token (utils.py)\<close>

text \<open>
  The objects of the messaging library are records of the attributes the source reads.
  Whether an object has an attribute is a matter of the library, so an attribute the
  source reads without a default is either \<open>Absent\<close>, and reading it raises
  \<^verbatim>\<open>AttributeError\<close>, or \<open>Present\<close> with its value.
\<close>

datatype 'a attribute = Absent | Present 'a

text \<open>
  A media object carries \<^verbatim>\<open>file_unique_id\<close>, which utils.py reads on the objects it
  finds itself, and \<^verbatim>\<open>file_id\<close>, which server.py reads on \<^verbatim>\<open>message.media\<close>. The size is
  read with \<^verbatim>\<open>getattr(media, "file_size", 0)\<close>: the attribute may be absent, present
  with the value \<^verbatim>\<open>None\<close>, or present with a number. The type is read with
  \<^verbatim>\<open>getattr(media, "mime_type", None)\<close> and then tested for truth, so \<open>None\<close> stands
  both for an absent attribute and for the value \<^verbatim>\<open>None\<close>.

  A message carries \<^verbatim>\<open>media\<close>, the object whose truth value and whose \<^verbatim>\<open>file_id\<close> the
  server reads, and one optional attribute per media type. In the releases of the
  messaging library that have \<^verbatim>\<open>pyrogram.enums\<close> (bot.py imports it) the value of
  \<^verbatim>\<open>message.media\<close> is a member of an enumeration: true, and without \<^verbatim>\<open>file_id\<close>.
\<close>

record media_obj =
  file_id :: "string attribute"
  file_unique_id :: string
  file_size :: "int option attribute"
  mime_type :: "string option"

record message =
  media :: "media_obj option"
  document :: "media_obj option"
  video :: "media_obj option"
  audio :: "media_obj option"
  animation :: "media_obj option"
  voice :: "media_obj option"
  video_note :: "media_obj option"
  photo :: "media_obj option"
  sticker :: "media_obj option"

text \<open>
  \<^verbatim>\<open>get_media_from_message\<close>: the first media attribute that is set, in the order of
  the list \<^verbatim>\<open>media_types\<close>.
\<close>

definition media_types :: "(message \<Rightarrow> media_obj option) list" where
  "media_types = [document, video, audio, animation, voice, video_note, photo, sticker]"

fun first_media :: "(message \<Rightarrow> media_obj option) list \<Rightarrow> message \<Rightarrow> media_obj option" where
  "first_media [] m = None"
| "first_media (t # ts) m = (case t m of Some x \<Rightarrow> Some x | None \<Rightarrow> first_media ts m)"

definition get_media_from_message :: "message \<Rightarrow> media_obj option" where
  "get_media_from_message m = first_media media_types m"

text \<open>
  \<^verbatim>\<open>get_hash\<close>:
  \<^verbatim>\<open>
    media = get_media_from_message(message)
    if media:
        return hashlib.md5(media.file_unique_id.encode()).hexdigest()[:12]
    return ""
  \<close>
\<close>

definition get_hash :: "message \<Rightarrow> string" where
  "get_hash m =
     (case get_media_from_message m of
        Some found \<Rightarrow> take 12 (md5_hexdigest (file_unique_id found))
      | None \<Rightarrow> [])"

section \<open>The statistics store (database.py)\<close>

text \<open>
  A row of \<^verbatim>\<open>FileStats\<close>, with the columns the modelled code reads or writes (the
  column \<^verbatim>\<open>file_id\<close> is \<open>stat_file_id\<close> here, the name being taken by the media object).
  The session holds the table; \<open>fault\<close> is the error the database layer raises at the next
  query, if any. Time stamps are natural numbers.
\<close>

record file_stats =
  stat_file_id :: string
  stat_message_id :: int
  views :: int
  downloads :: int
  last_accessed :: "nat option"

record db_session =
  rows :: "file_stats list"
  fault :: "pyexn option"

fun update_first :: "('a \<Rightarrow> bool) \<Rightarrow> ('a \<Rightarrow> 'a) \<Rightarrow> 'a list \<Rightarrow> 'a list" where
  "update_first P f [] = []"
| "update_first P f (x # xs) = (if P x then f x # xs else x # update_first P f xs)"

text \<open>
  \<^verbatim>\<open>update_file_stats(session, file_id, action='view')\<close>:
  \<^verbatim>\<open>
    file_stat = session.query(FileStats).filter_by(file_id=file_id).first()
    if file_stat:
        if action == 'view':
            file_stat.views += 1
        elif action == 'download':
            file_stat.downloads += 1
        file_stat.last_accessed = datetime.utcnow()
        session.commit()
  \<close>
  \<open>now\<close> is the value of \<^verbatim>\<open>datetime.utcnow()\<close>.
\<close>

definition touch_row :: "nat \<Rightarrow> string \<Rightarrow> file_stats \<Rightarrow> file_stats" where
  "touch_row now action file_stat =
     (if action = ''view'' then file_stat\<lparr>views := views file_stat + 1\<rparr>
      else if action = ''download'' then file_stat\<lparr>downloads := downloads file_stat + 1\<rparr>
      else file_stat)\<lparr>last_accessed := Some now\<rparr>"

definition update_file_stats ::
  "nat \<Rightarrow> db_session \<Rightarrow> string \<Rightarrow> string \<Rightarrow> (pyexn + unit) \<times> db_session" where
  "update_file_stats now sess fid action =
     (case fault sess of
        Some e \<Rightarrow> (Inl e, sess)
      | None \<Rightarrow>
          (Inr (),
           sess\<lparr>rows := update_first (\<lambda>r. stat_file_id r = fid) (touch_row now action)
                            (rows sess)\<rparr>))"

section \<open>The web server (server.py)\<close>

subsection \<open>Requests, responses, collaborators\<close>

text \<open>
  A request carries the two path parameters of the routes
  \<^verbatim>\<open>/watch/{message_id}/{filename}\<close> and \<^verbatim>\<open>/dl/{message_id}/{filename}\<close> (both are always
  present once the route has matched), the query parameters and the headers. Header
  names are looked up in their canonical spelling.
\<close>

record request =
  message_id_seg :: string
  filename_seg :: string
  query :: "(string \<times> string) list"
  req_headers :: "(string \<times> string) list"

text \<open>
  A response: its status, its headers and, for \<^verbatim>\<open>web.Response(text=..., status=...)\<close>,
  its text (\<open>resp_text\<close>); a \<^verbatim>\<open>StreamResponse\<close> has no text of its own. \<open>set_header\<close> is the
  assignment \<^verbatim>\<open>response.headers[k] = v\<close>.
\<close>

record response =
  status :: int
  headers :: "(string \<times> string) list"
  resp_text :: string

fun set_header :: "string \<Rightarrow> string \<Rightarrow> (string \<times> string) list \<Rightarrow> (string \<times> string) list" where
  "set_header k v [] = [(k, v)]"
| "set_header k v (p # ps) = (if fst p = k then (k, v) # ps else p # set_header k v ps)"

definition web_Response :: "string \<Rightarrow> int \<Rightarrow> response" where
  "web_Response t st = \<lparr>status = st, headers = [], resp_text = t\<rparr>"

text \<open>
  The collaborators of a request: the channel of the configuration, the messaging
  client (\<^verbatim>\<open>get_messages\<close> returns a message, \<^verbatim>\<open>None\<close>, or raises; \<^verbatim>\<open>stream_media\<close>
  yields chunks and may raise after the last of them), \<^verbatim>\<open>mimetypes.guess_type\<close>, the
  clock, and the client connection: \<open>client_writes\<close> is the number of calls of
  \<^verbatim>\<open>response.write\<close> that succeed before the connection is gone (\<open>None\<close>: all of them).
\<close>

record env =
  BIN_CHANNEL :: int
  get_messages :: "int \<Rightarrow> int \<Rightarrow> pyexn + message option"
  stream_media :: "message \<Rightarrow> int \<Rightarrow> int \<Rightarrow> string list \<times> pyexn option"
  guess_type :: "string \<Rightarrow> string option"
  utcnow :: nat
  client_writes :: "nat option"

text \<open>
  What a request does to the outside, in order: the message fetched, the call of the
  statistics update, the response head sent by \<^verbatim>\<open>response.prepare\<close>, each chunk written,
  each error logged. The world is the database session and this trace.
\<close>

datatype event =
    Fetched int int
  | StatsCall string string
  | Prepared int "(string \<times> string) list"
  | Wrote string
  | Logged pyexn

record world =
  session :: db_session
  trace :: "event list"

definition emit :: "event list \<Rightarrow> world \<Rightarrow> world" where
  "emit es w = w\<lparr>trace := trace w @ es\<rparr>"


subsection \<open>The names the serve routine looks up\<close>

text \<open>
  Inside \<^verbatim>\<open>_serve_file\<close> the names \<^verbatim>\<open>get_hash\<close>, \<^verbatim>\<open>get_media_from_message\<close> and
  \<^verbatim>\<open>request\<close> are free: the function assigns none of them and has no parameter of
  that name, so each is looked up in the globals of the module \<^verbatim>\<open>server\<close> when the line
  is executed, and an unbound name raises \<^verbatim>\<open>NameError\<close>. (A method of the class, such as
  \<^verbatim>\<open>WebServer.get_hash\<close>, is not in scope under its bare name.) The globals are part of
  the input of the routine. \<open>server_module_names\<close> lists what server.py binds at module
  level: its imports and its class.
\<close>

record globals =
  g_get_hash :: "(message \<Rightarrow> string) option"
  g_get_media_from_message :: "(message \<Rightarrow> media_obj option) option"
  g_request :: "request option"

definition server_module_names :: "string list" where
  "server_module_names =
     [''os'', ''logging'', ''mimetypes'', ''Optional'', ''datetime'', ''web'', ''Response'',
      ''StreamResponse'', ''FileId'', ''MessageNotFound'', ''Config'', ''FileStats'',
      ''update_file_stats'', ''get_readable_file_size'', ''get_readable_time'', ''WebServer'']"

definition bound_to :: "string \<Rightarrow> 'a \<Rightarrow> 'a option" where
  "bound_to name v = (if name \<in> set server_module_names then Some v else None)"

text \<open>
  The globals of the module as the source has them. The request is no module-level
  name in any case: it is a parameter of the two handlers only.
\<close>

definition server_globals :: globals where
  "server_globals =
     \<lparr>g_get_hash = bound_to ''get_hash'' get_hash,
      g_get_media_from_message = bound_to ''get_media_from_message'' get_media_from_message,
      g_request = None\<rparr>"

text \<open>
  The globals the routine would see with \<^verbatim>\<open>get_hash\<close> and \<^verbatim>\<open>get_media_from_message\<close>
  imported from utils and the handler's request in scope.
\<close>

definition resolved_globals :: "request \<Rightarrow> globals" where
  "resolved_globals req =
     \<lparr>g_get_hash = Some get_hash,
      g_get_media_from_message = Some get_media_from_message,
      g_request = Some req\<rparr>"

subsection \<open>The serve routine\<close>

text \<open>
  The content type (lines 495 to 499 of server.py):
  \<^verbatim>\<open>
    mime_type = getattr(media, "mime_type", None)
    if not mime_type:
        mime_type, _ = mimetypes.guess_type(filename)
        mime_type = mime_type or "application/octet-stream"
  \<close>
\<close>

definition pick_mime_type :: "env \<Rightarrow> string \<Rightarrow> media_obj option \<Rightarrow> string" where
  "pick_mime_type e filename found =
     (let guessed = (case guess_type e filename of
                       None \<Rightarrow> ''application/octet-stream''
                     | Some t \<Rightarrow> if t = [] then ''application/octet-stream'' else t)
      in case found of
           None \<Rightarrow> guessed
         | Some m \<Rightarrow>
             (case mime_type m of
                None \<Rightarrow> guessed
              | Some t \<Rightarrow> if t = [] then guessed else t))"

text \<open>
  The size (line 494), \<^verbatim>\<open>file_size = getattr(media, "file_size", 0)\<close>, where \<^verbatim>\<open>media\<close>
  may be \<^verbatim>\<open>None\<close>. The default 0 is taken when the attribute is absent; an attribute
  that is present with the value \<^verbatim>\<open>None\<close> gives \<^verbatim>\<open>None\<close>. \<open>str_size\<close> is \<^verbatim>\<open>str(file_size)\<close>.
\<close>

definition media_file_size :: "media_obj option \<Rightarrow> int option" where
  "media_file_size found =
     (case found of
        None \<Rightarrow> Some 0
      | Some m \<Rightarrow> (case file_size m of Absent \<Rightarrow> Some 0 | Present v \<Rightarrow> v))"

definition str_size :: "int option \<Rightarrow> string" where
  "str_size v = (case v of None \<Rightarrow> ''None'' | Some n \<Rightarrow> str_int n)"

text \<open>
  The response as first built (lines 501 to 515):
  \<^verbatim>\<open>
    response = StreamResponse(
        status=200,
        headers={
            'Content-Type': mime_type,
            'Content-Length': str(file_size),
            'Accept-Ranges': 'bytes',
            'Cache-Control': 'public, max-age=3600'
        }
    )
    if mode == "download":
        response.headers['Content-Disposition'] = f'attachment; filename="{filename}"'
    else:
        response.headers['Content-Disposition'] = f'inline; filename="{filename}"'
  \<close>
\<close>

definition initial_response :: "env \<Rightarrow> string \<Rightarrow> string \<Rightarrow> media_obj option \<Rightarrow> response" where
  "initial_response e filename mode found =
     (let resp0 =
            \<lparr>status = 200,
             headers =
               [(''Content-Type'', pick_mime_type e filename found),
                (''Content-Length'', str_size (media_file_size found)),
                (''Accept-Ranges'', ''bytes''),
                (''Cache-Control'', ''public, max-age=3600'')],
             resp_text = []\<rparr>
      in resp0\<lparr>headers :=
           set_header ''Content-Disposition''
             ((if mode = ''download'' then ''attachment'' else ''inline'') @
              ''; filename='' @ [CHR 0x22] @ filename @ [CHR 0x22])
             (headers resp0)\<rparr>)"

text \<open>
  The range block (lines 519 to 526), given the value of
  \<^verbatim>\<open>request.headers.get('Range')\<close>:
  \<^verbatim>\<open>
    if range_header:
        from_bytes, to_bytes = self._parse_range(range_header, file_size)
        response.status = 206
        response.headers['Content-Range'] = f'bytes {from_bytes}-{to_bytes}/{file_size}'
        response.headers['Content-Length'] = str(to_bytes - from_bytes + 1)
    else:
        from_bytes = 0
        to_bytes = file_size - 1
  \<close>
  A header that is absent or empty is false. In the first branch the parser is called
  and then the assignment \<^verbatim>\<open>response.status = 206\<close> is executed: \<^verbatim>\<open>status\<close> is a property
  of the web library's \<^verbatim>\<open>StreamResponse\<close> that has no setter (the library changes it with
  \<^verbatim>\<open>set_status\<close>), so the assignment raises \<^verbatim>\<open>AttributeError\<close> and the two lines after it
  are not reached. With \<^verbatim>\<open>None\<close> for the size both branches raise \<^verbatim>\<open>TypeError\<close> at
  \<^verbatim>\<open>file_size - 1\<close>: the second at once, the first inside the parser, whose handler
  evaluates \<^verbatim>\<open>file_size - 1\<close> again. The result is the exception raised, or the response
  with the first and the last byte to send.
\<close>

definition range_block ::
  "string option \<Rightarrow> int option \<Rightarrow> response \<Rightarrow> pyexn + (response \<times> int \<times> int)" where
  "range_block range_header fsize resp =
     (case fsize of
        None \<Rightarrow> Inl TypeError
      | Some n \<Rightarrow>
          (case range_header of
             None \<Rightarrow> Inr (resp, 0, n - 1)
           | Some h \<Rightarrow>
               if h = [] then Inr (resp, 0, n - 1)
               else
                 (case parse_range h n of
                    (from_bytes, to_bytes) \<Rightarrow> Inl (AttributeError ''status''))))"

text \<open>
  The chunks that reach the client, and whether every chunk did: a write on a connection
  that is gone raises.
\<close>

fun write_chunks :: "nat option \<Rightarrow> string list \<Rightarrow> string list \<times> bool" where
  "write_chunks budget [] = ([], True)"
| "write_chunks None (c # cs) =
     (case write_chunks None cs of (ws, ok) \<Rightarrow> (c # ws, ok))"
| "write_chunks (Some 0) (c # cs) = ([], False)"
| "write_chunks (Some (Suc k)) (c # cs) =
     (case write_chunks (Some k) cs of (ws, ok) \<Rightarrow> (c # ws, ok))"

text \<open>
  Sending (lines 528 to 534):
  \<^verbatim>\<open>
    await response.prepare(request)
    async for chunk in self.bot.stream_media(message, from_bytes, to_bytes - from_bytes + 1):
        await response.write(chunk)
    return response
  \<close>
\<close>

definition stream_out ::
  "env \<Rightarrow> message \<Rightarrow> int \<Rightarrow> int \<Rightarrow> response \<Rightarrow> world \<Rightarrow> (pyexn + response) \<times> world" where
  "stream_out e msg from_bytes to_bytes resp w =
     (let w1 = emit [Prepared (status resp) (headers resp)] w in
      case stream_media e msg from_bytes (to_bytes - from_bytes + 1) of
        (cs, err) \<Rightarrow>
          (case write_chunks (client_writes e) cs of
             (ws, ok) \<Rightarrow>
               (let w2 = emit (map Wrote ws) w1 in
                if \<not> ok then (Inl (OtherError ''ConnectionResetError''), w2)
                else (case err of
                        Some x \<Rightarrow> (Inl x, w2)
                      | None \<Rightarrow> (Inr resp, w2)))))"

text \<open>
  The \<^verbatim>\<open>try\<close> block of \<^verbatim>\<open>WebServer._serve_file(self, message_id, filename, file_hash, mode)\<close>
  (lines 479 to 534), statement by statement. The result is the response returned or the
  exception raised, with the world as the block left it. In line 490,
  \<^verbatim>\<open>await update_file_stats(self.db_session, message.media.file_id, mode)\<close>, the arguments
  are evaluated before the call: when \<^verbatim>\<open>message.media\<close> has no \<^verbatim>\<open>file_id\<close> the line raises
  \<^verbatim>\<open>AttributeError\<close> and the update is not called.
\<close>

definition serve_file_try ::
  "globals \<Rightarrow> env \<Rightarrow> world \<Rightarrow> int \<Rightarrow> string \<Rightarrow> string \<Rightarrow> string \<Rightarrow> (pyexn + response) \<times> world" where
  "serve_file_try g e w message_id filename file_hash mode =
     (let w1 = emit [Fetched (BIN_CHANNEL e) message_id] w in
      case get_messages e (BIN_CHANNEL e) message_id of
        Inl x \<Rightarrow> (Inl x, w1)
      | Inr None \<Rightarrow> (Inr (web_Response ''File not found'' 404), w1)
      | Inr (Some msg) \<Rightarrow>
          (case media msg of
             None \<Rightarrow> (Inr (web_Response ''File not found'' 404), w1)
           | Some msg_media \<Rightarrow>
               (case g_get_hash g of
                  None \<Rightarrow> (Inl (NameError ''get_hash''), w1)
                | Some get_hash_fn \<Rightarrow>
                    if get_hash_fn msg \<noteq> file_hash
                    then (Inr (web_Response ''Invalid hash'' 403), w1)
                    else
                      (case file_id msg_media of
                         Absent \<Rightarrow> (Inl (AttributeError ''file_id''), w1)
                       | Present fid \<Rightarrow>
                           (let w2 = emit [StatsCall fid mode] w1 in
                            case update_file_stats (utcnow e) (session w2) fid mode of
                              (Inl x, s) \<Rightarrow> (Inl x, w2\<lparr>session := s\<rparr>)
                            | (Inr u, s) \<Rightarrow>
                                (let w3 = w2\<lparr>session := s\<rparr> in
                                 case g_get_media_from_message g of
                                   None \<Rightarrow> (Inl (NameError ''get_media_from_message''), w3)
                                 | Some get_media_fn \<Rightarrow>
                                     (let found = get_media_fn msg;
                                          fsize = media_file_size found;
                                          resp1 = initial_response e filename mode found
                                      in case g_request g of
                                           None \<Rightarrow> (Inl (NameError ''request''), w3)
                                         | Some req \<Rightarrow>
                                             (case range_block (map_of (req_headers req) ''Range'')
                                                     fsize resp1 of
                                                Inl x \<Rightarrow> (Inl x, w3)
                                              | Inr (resp2, from_bytes, to_bytes) \<Rightarrow>
                                                  stream_out e msg from_bytes to_bytes resp2
                                                    w3))))))))"

text \<open>
  \<^verbatim>\<open>_serve_file\<close> with its two handlers:
  \<^verbatim>\<open>
    except MessageNotFound:
        return web.Response(text="File not found", status=404)
    except Exception as e:
        self.logger.error(f"File serving error: {e}", exc_info=True)
        return web.Response(text="Internal server error", status=500)
  \<close>
\<close>

definition serve_file ::
  "globals \<Rightarrow> env \<Rightarrow> world \<Rightarrow> int \<Rightarrow> string \<Rightarrow> string \<Rightarrow> string \<Rightarrow> response \<times> world" where
  "serve_file g e w message_id filename file_hash mode =
     (case serve_file_try g e w message_id filename file_hash mode of
        (Inr resp, w') \<Rightarrow> (resp, w')
      | (Inl x, w') \<Rightarrow>
          if x = MessageNotFound then (web_Response ''File not found'' 404, w')
          else (web_Response ''Internal server error'' 500, emit [Logged x] w'))"

subsection \<open>The two route handlers\<close>

text \<open>
  \<^verbatim>\<open>stream_handler\<close> and \<^verbatim>\<open>download_handler\<close>:
  \<^verbatim>\<open>
    message_id = int(request.match_info['message_id'])
    filename = request.match_info['filename']
    file_hash = request.query.get('hash')
    if not file_hash:
        return web.Response(text="Invalid request", status=400)
    return await self._serve_file(message_id, filename, file_hash, "stream")
  \<close>
  (\<^verbatim>\<open>"download"\<close> in the second). The conversion of the path segment is outside any
  \<^verbatim>\<open>try\<close>: its \<^verbatim>\<open>ValueError\<close> leaves the handler.
\<close>

definition route_handler ::
  "string \<Rightarrow> globals \<Rightarrow> env \<Rightarrow> world \<Rightarrow> request \<Rightarrow> (pyexn + response) \<times> world" where
  "route_handler mode g e w req =
     (case py_int (message_id_seg req) of
        Inl x \<Rightarrow> (Inl x, w)
      | Inr message_id \<Rightarrow>
          (let filename = filename_seg req;
               file_hash = map_of (query req) ''hash''
           in case file_hash of
                None \<Rightarrow> (Inr (web_Response ''Invalid request'' 400), w)
              | Some h \<Rightarrow>
                  if h = [] then (Inr (web_Response ''Invalid request'' 400), w)
                  else (case serve_file g e w message_id filename h mode of
                          (resp, w') \<Rightarrow> (Inr resp, w'))))"

definition stream_handler :: "globals \<Rightarrow> env \<Rightarrow> world \<Rightarrow> request \<Rightarrow> (pyexn + response) \<times> world" where
  "stream_handler = route_handler ''stream''"

definition download_handler :: "globals \<Rightarrow> env \<Rightarrow> world \<Rightarrow> request \<Rightarrow> (pyexn + response) \<times> world" where
  "download_handler = route_handler ''download''"

section \<open>A concrete server\<close>

text \<open>
  One stored file for the examples below: message 123 of the channel holds a video of
  1000 bytes, and the table has its row with both counters at zero. The messaging client
  streams the bytes asked for in chunks of at most 400 bytes. The attribute \<^verbatim>\<open>media\<close> of the
  example message is the video object itself, so it is true and reading \<^verbatim>\<open>file_id\<close> on it
  succeeds. The server as the source has it tests its truth and reads nothing else of it.
\<close>

definition movie :: media_obj where
  "movie =
     \<lparr>file_id = Present ''BAACAgIAAxkBAAIBQ2'', file_unique_id = ''AgADBQADqacxG6kp'',
      file_size = Present (Some 1000), mime_type = Some ''video/mp4''\<rparr>"

definition movie_message :: message where
  "movie_message =
     \<lparr>media = Some movie, document = None, video = Some movie, audio = None,
      animation = None, voice = None, video_note = None, photo = None, sticker = None\<rparr>"

definition movie_row :: file_stats where
  "movie_row =
     \<lparr>stat_file_id = ''BAACAgIAAxkBAAIBQ2'', stat_message_id = 123, views = 0, downloads = 0,
      last_accessed = None\<rparr>"

definition chunk_sizes :: "nat \<Rightarrow> nat list" where
  "chunk_sizes n = replicate (n div 400) 400 @ (if n mod 400 = 0 then [] else [n mod 400])"

definition demo_stream :: "message \<Rightarrow> int \<Rightarrow> int \<Rightarrow> string list \<times> pyexn option" where
  "demo_stream m offset len =
     (if len \<le> 0 then ([], None)
      else (map (\<lambda>n. replicate n CHR ''x'') (chunk_sizes (nat len)), None))"

definition demo_env :: "nat option \<Rightarrow> env" where
  "demo_env cw =
     \<lparr>BIN_CHANNEL = - 1001234567890,
      get_messages = (\<lambda>chat i. if chat = - 1001234567890 \<and> i = 123
                                 then Inr (Some movie_message) else Inl MessageNotFound),
      stream_media = demo_stream,
      guess_type = (\<lambda>f. None),
      utcnow = 42,
      client_writes = cw\<rparr>"

definition demo_world :: "pyexn option \<Rightarrow> world" where
  "demo_world flt = \<lparr>session = \<lparr>rows = [movie_row], fault = flt\<rparr>, trace = []\<rparr>"

definition demo_request :: "string \<Rightarrow> (string \<times> string) list \<Rightarrow> (string \<times> string) list \<Rightarrow> request" where
  "demo_request seg q hs =
     \<lparr>message_id_seg = seg, filename_seg = ''movie.mp4'', query = q, req_headers = hs\<rparr>"

text \<open>
  The same content stored a second time, as a document with a file identifier of its own:
  the unique identifier is that of the video.
\<close>

definition movie_doc :: media_obj where
  "movie_doc =
     \<lparr>file_id = Present ''BQACAgIAAxkBAAIBR3'', file_unique_id = ''AgADBQADqacxG6kp'',
      file_size = Present (Some 1000), mime_type = None\<rparr>"

definition movie_copy :: message where
  "movie_copy =
     \<lparr>media = Some movie_doc, document = Some movie_doc, video = None, audio = None,
      animation = None, voice = None, video_note = None, photo = None, sticker = None\<rparr>"

text \<open>A request for message 123 that carries the token of the video and the given headers.\<close>

definition good_request :: "(string \<times> string) list \<Rightarrow> request" where
  "good_request hs = demo_request ''123'' [(''hash'', ''5e33b0d3ff54'')] hs"

section \<open>Properties of the string and integer functions\<close>



lemma is_digit_not_special:
  "is_digit c \<Longrightarrow>
     c \<noteq> CHR ''-'' \<and> c \<noteq> CHR ''+'' \<and> c \<noteq> CHR ''_'' \<and> c \<noteq> CHR ''b'' \<and> \<not> is_space c"
  by (auto simp: is_digit_def digit_chars_def is_space_def)

lemma parse_digits_all_digits:
  "\<forall>c \<in> set ds. is_digit c \<Longrightarrow>
     parse_digits acc ds = Some (foldl (\<lambda>a c. 10 * a + digit_val c) acc ds)"
  by (induction acc ds rule: parse_digits.induct) simp_all





lemma dropWhile_hd: "xs \<noteq> [] \<Longrightarrow> \<not> P (hd xs) \<Longrightarrow> dropWhile P xs = xs"
  by (cases xs) auto

lemma str_strip_no_space:
  assumes "s \<noteq> []" "\<not> is_space (hd s)" "\<not> is_space (last s)"
  shows "str_strip s = s"
proof -
  have 1: "dropWhile is_space s = s" using assms by (intro dropWhile_hd)
  have 2: "dropWhile is_space (rev s) = rev s"
    using assms by (intro dropWhile_hd) (simp_all add: hd_rev)
  show ?thesis by (simp add: str_strip_def 1 2)
qed










lemma parse_range_start_ge: "0 \<le> fst (parse_range h fs)"
  by (auto simp: parse_range_def parse_range_try_def Let_def split: sum.splits list.splits if_splits)

section \<open>Properties of the digest and of the token\<close>

lemma length_word_le_bytes: "length (word_le_bytes w) = 4"
  by (simp add: word_le_bytes_def)

lemma length_md5_digest: "length (md5_digest bs) = 16"
  by (simp add: md5_digest_def length_word_le_bytes split: prod.split)

lemma length_hex_bytes: "length (concat (map hex_byte bs)) = 2 * length bs"
  by (induction bs) (simp_all add: hex_byte_def)

lemma length_md5_hexdigest: "length (md5_hexdigest s) = 32"
  by (simp add: md5_hexdigest_def length_hex_bytes length_md5_digest)

lemma set_hex_byte: "set (hex_byte b) \<subseteq> set hex_chars"
proof -
  have "unat b < 256" using unsigned_less [of b] by simp
  then have "unat b div 16 < length hex_chars" "unat b mod 16 < length hex_chars"
    by (simp_all add: hex_chars_def)
  then show ?thesis
    unfolding hex_byte_def using nth_mem by fastforce
qed

lemma set_md5_hexdigest: "set (md5_hexdigest s) \<subseteq> set hex_chars"
  using set_hex_byte by (auto simp: md5_hexdigest_def)

text \<open>The digest of \<^verbatim>\<open>abc\<close>, from the test suite of RFC 1321.\<close>

lemma md5_hexdigest_abc: "md5_hexdigest ''abc'' = ''900150983cd24fb0d6963f7d28e17f72''"
  by code_simp

lemma get_hash_movie: "get_hash movie_message = ''5e33b0d3ff54''"
  by code_simp

lemma get_hash_Some:
  "get_media_from_message m = Some x \<Longrightarrow> get_hash m = take 12 (md5_hexdigest (file_unique_id x))"
  by (simp add: get_hash_def)

lemma media_of_movie: "get_media_from_message movie_message = Some movie"
  by (simp add: get_media_from_message_def media_types_def movie_message_def)

lemma media_of_copy: "get_media_from_message movie_copy = Some movie_doc"
  by (simp add: get_media_from_message_def media_types_def movie_copy_def)

section \<open>The serve routine under the globals of server.py\<close>

text \<open>
  None of the three free names of the routine is among the names the module binds.
\<close>

lemma server_globals_unbound:
  "g_get_hash server_globals = None"
  "g_get_media_from_message server_globals = None"
  "g_request server_globals = None"
  by (simp_all add: server_globals_def bound_to_def server_module_names_def)

lemma serve_file_unbound_get_hash:
  assumes "get_messages e (BIN_CHANNEL e) message_id = Inr (Some msg)"
    and "media msg = Some mm"
    and "g_get_hash g = None"
  shows "serve_file g e w message_id filename file_hash mode =
           (web_Response ''Internal server error'' 500,
            emit [Fetched (BIN_CHANNEL e) message_id, Logged (NameError ''get_hash'')] w)"
  using assms by (simp add: serve_file_def serve_file_try_def emit_def)

lemma route_handler_calls_serve_file:
  assumes "py_int (message_id_seg req) = Inr message_id"
    and "map_of (query req) ''hash'' = Some h" and "h \<noteq> []"
  shows "route_handler mode g e w req =
           (Inr (fst (serve_file g e w message_id (filename_seg req) h mode)),
            snd (serve_file g e w message_id (filename_seg req) h mode))"
  using assms by (simp add: route_handler_def split: prod.split)

text \<open>
  So the routine as the source has it does one of three things, whatever the file name,
  the hash and the mode: it answers 404 when the message is missing or has no media, it
  answers 500 and logs the error when the fetch raises anything else, and for a message
  with media it answers 500 and logs the \<^verbatim>\<open>NameError\<close> of line 486.
\<close>

lemma serve_file_shipped:
  "serve_file server_globals e w message_id filename file_hash mode =
     (case get_messages e (BIN_CHANNEL e) message_id of
        Inl x \<Rightarrow>
          if x = MessageNotFound
          then (web_Response ''File not found'' 404, emit [Fetched (BIN_CHANNEL e) message_id] w)
          else (web_Response ''Internal server error'' 500,
                emit [Fetched (BIN_CHANNEL e) message_id, Logged x] w)
      | Inr None \<Rightarrow>
          (web_Response ''File not found'' 404, emit [Fetched (BIN_CHANNEL e) message_id] w)
      | Inr (Some msg) \<Rightarrow>
          if media msg = None
          then (web_Response ''File not found'' 404, emit [Fetched (BIN_CHANNEL e) message_id] w)
          else (web_Response ''Internal server error'' 500,
                emit [Fetched (BIN_CHANNEL e) message_id, Logged (NameError ''get_hash'')] w))"
  by (auto simp: serve_file_def serve_file_try_def server_globals_unbound emit_def Let_def
      split: sum.split option.split)


lemma serve_file_shipped_status:
  "status (fst (serve_file server_globals e w message_id filename file_hash mode)) = 404 \<or>
   status (fst (serve_file server_globals e w message_id filename file_hash mode)) = 500"
  by (simp add: serve_file_shipped web_Response_def split: sum.split option.split)



section \<open>The statuses of the responses\<close>



section \<open>The serve routine with its names resolved\<close>

lemma resolved_globals_bound:
  "g_get_hash (resolved_globals req) = Some get_hash"
  "g_get_media_from_message (resolved_globals req) = Some get_media_from_message"
  "g_request (resolved_globals req) = Some req"
  by (simp_all add: resolved_globals_def)

lemma write_chunks_all: "write_chunks None cs = (cs, True)"
  by (induction cs) simp_all

text \<open>
  Line 490 with an object in \<^verbatim>\<open>message.media\<close> that has no \<^verbatim>\<open>file_id\<close>: whatever the
  globals, a request that passes the comparison of line 486 is answered 500, and the
  statistics update is not called.
\<close>

lemma serve_file_media_without_file_id:
  assumes "get_messages e (BIN_CHANNEL e) message_id = Inr (Some msg)"
    and "media msg = Some mm" and "file_id mm = Absent"
    and "g_get_hash g = Some f" and "f msg = file_hash"
  shows "serve_file g e w message_id filename file_hash mode =
           (web_Response ''Internal server error'' 500,
            emit [Fetched (BIN_CHANNEL e) message_id, Logged (AttributeError ''file_id'')] w)"
  using assms by (simp add: serve_file_def serve_file_try_def emit_def)

section \<open>The conversion of the path segment\<close>

lemma py_int_error: "py_int s = Inl x \<Longrightarrow> x = ValueError"
  by (simp add: py_int_def Let_def split: option.splits)

lemma py_int_digits:
  assumes "s \<noteq> []" and "\<forall>c \<in> set s. is_digit c"
  shows "\<exists>n. py_int s = Inr n"
proof -
  obtain c cs where cs: "s = c # cs" using assms(1) by (cases s) auto
  have "is_digit (hd s)" "is_digit (last s)" using assms by (simp_all add: hd_in_set)
  then have "str_strip s = s"
    using assms(1) is_digit_not_special by (intro str_strip_no_space) auto
  moreover have "c \<noteq> CHR ''-''" "c \<noteq> CHR ''+''"
    using assms(2) cs is_digit_not_special [of c] by auto
  moreover have "parse_digits (digit_val c) cs
                   = Some (foldl (\<lambda>a c. 10 * a + digit_val c) (digit_val c) cs)"
    using assms(2) cs by (intro parse_digits_all_digits) simp
  ultimately show ?thesis
    using assms(2) cs by (simp add: py_int_def parse_decimal_def)
qed

section \<open>Evaluating the concrete server\<close>

lemmas py_int_defs = py_int_def str_strip_def is_space_def parse_decimal_def is_digit_def
  digit_val_def digit_chars_def

lemmas handler_defs = stream_handler_def download_handler_def route_handler_def serve_file_def
  serve_file_try_def stream_out_def range_block_def initial_response_def pick_mime_type_def
  media_file_size_def str_size_def update_file_stats_def touch_row_def web_Response_def emit_def

lemmas demo_defs = demo_env_def demo_world_def good_request_def demo_request_def demo_stream_def
  chunk_sizes_def movie_def movie_row_def

lemma media_movie_message: "media movie_message = Some movie"
  by (simp add: movie_message_def)

lemma replicate_two: "replicate 2 x = [x, x]"
  by (simp add: numeral_2_eq_2)

lemma parse_range_try_abc: "parse_range_try ''bytes=abc'' 1000 = Inl ValueError"
  by (simp add: parse_range_try_def str_replace_def py_int_defs)

lemma parse_range_abc: "parse_range ''bytes=abc'' 1000 = (0, 999)"
  by (simp add: parse_range_def parse_range_try_abc)


section \<open>A request with the correct hash\<close>

text \<open>
  Claim C1 expects status 200, the whole body and one more view for a request to
  \<^verbatim>\<open>/watch\<close> with the correct hash and no Range header. The request
  \<^verbatim>\<open>GET /watch/123/movie.mp4?hash=5e33b0d3ff54\<close> carries the token of the stored video. The
  server as the source has it answers 500 and sends nothing: \<^verbatim>\<open>get_hash\<close> is unbound in
  server.py. With the three names resolved, and with a \<^verbatim>\<open>file_id\<close> on the object in
  \<^verbatim>\<open>message.media\<close> as the example message has it, the same request gets status 200 and
  all 1000 bytes, but the view counter stays at 0: the handler passes the mode
  \<^verbatim>\<open>"stream"\<close>, and \<^verbatim>\<open>update_file_stats\<close> counts a view for the action \<^verbatim>\<open>'view'\<close> only.
\<close>

theorem watch_correct_hash_not_served:
  "get_hash movie_message = ''5e33b0d3ff54'' \<and>
   stream_handler server_globals (demo_env None) (demo_world None) (good_request [])
     = (Inr \<lparr>status = 500, headers = [], resp_text = ''Internal server error''\<rparr>,
        \<lparr>session = \<lparr>rows = [movie_row], fault = None\<rparr>,
         trace = [Fetched (- 1001234567890) 123, Logged (NameError ''get_hash'')]\<rparr>) \<and>
   stream_handler (resolved_globals (good_request [])) (demo_env None) (demo_world None)
       (good_request [])
     = (Inr \<lparr>status = 200,
              headers =
                [(''Content-Type'', ''video/mp4''), (''Content-Length'', ''1000''),
                 (''Accept-Ranges'', ''bytes''), (''Cache-Control'', ''public, max-age=3600''),
                 (''Content-Disposition'',
                  ''inline; filename='' @ [CHR 0x22] @ ''movie.mp4'' @ [CHR 0x22])],
              resp_text = []\<rparr>,
        \<lparr>session = \<lparr>rows = [movie_row\<lparr>last_accessed := Some 42\<rparr>], fault = None\<rparr>,
         trace =
           [Fetched (- 1001234567890) 123, StatsCall ''BAACAgIAAxkBAAIBQ2'' ''stream'',
            Prepared 200
              [(''Content-Type'', ''video/mp4''), (''Content-Length'', ''1000''),
               (''Accept-Ranges'', ''bytes''), (''Cache-Control'', ''public, max-age=3600''),
               (''Content-Disposition'',
                ''inline; filename='' @ [CHR 0x22] @ ''movie.mp4'' @ [CHR 0x22])],
            Wrote (replicate 400 CHR ''x''), Wrote (replicate 400 CHR ''x''),
            Wrote (replicate 200 CHR ''x'')]\<rparr>) \<and>
   views (movie_row\<lparr>last_accessed := Some 42\<rparr>) = 0"
proof -
  have real: "stream_handler server_globals (demo_env None) (demo_world None) (good_request [])
     = (Inr \<lparr>status = 500, headers = [], resp_text = ''Internal server error''\<rparr>,
        \<lparr>session = \<lparr>rows = [movie_row], fault = None\<rparr>,
         trace = [Fetched (- 1001234567890) 123, Logged (NameError ''get_hash'')]\<rparr>)"
    by (simp add: handler_defs py_int_defs server_globals_unbound demo_env_def demo_world_def
        good_request_def demo_request_def media_movie_message)
  have resolved: "stream_handler (resolved_globals (good_request [])) (demo_env None)
       (demo_world None) (good_request [])
     = (Inr \<lparr>status = 200,
              headers =
                [(''Content-Type'', ''video/mp4''), (''Content-Length'', ''1000''),
                 (''Accept-Ranges'', ''bytes''), (''Cache-Control'', ''public, max-age=3600''),
                 (''Content-Disposition'',
                  ''inline; filename='' @ [CHR 0x22] @ ''movie.mp4'' @ [CHR 0x22])],
              resp_text = []\<rparr>,
        \<lparr>session = \<lparr>rows = [movie_row\<lparr>last_accessed := Some 42\<rparr>], fault = None\<rparr>,
         trace =
           [Fetched (- 1001234567890) 123, StatsCall ''BAACAgIAAxkBAAIBQ2'' ''stream'',
            Prepared 200
              [(''Content-Type'', ''video/mp4''), (''Content-Length'', ''1000''),
               (''Accept-Ranges'', ''bytes''), (''Cache-Control'', ''public, max-age=3600''),
               (''Content-Disposition'',
                ''inline; filename='' @ [CHR 0x22] @ ''movie.mp4'' @ [CHR 0x22])],
            Wrote (replicate 400 CHR ''x''), Wrote (replicate 400 CHR ''x''),
            Wrote (replicate 200 CHR ''x'')]\<rparr>)"
    by (simp add: get_hash_movie handler_defs py_int_defs resolved_globals_bound demo_defs
        media_movie_message media_of_movie write_chunks_all str_int_def str_nat.simps
        replicate_two)
  have "views (movie_row\<lparr>last_accessed := Some 42\<rparr>) = 0"
    by (simp add: movie_row_def)
  with real resolved get_hash_movie show ?thesis by blast
qed

section \<open>The serve routine as the source has it\<close>

text \<open>
  Claim C2. The names \<^verbatim>\<open>get_hash\<close> and \<^verbatim>\<open>request\<close> are unbound in the globals of
  server.py. Whenever the message fetched exists and carries media, the serve routine,
  for every file name, hash and mode, returns the response
  \<^verbatim>\<open>Internal server error\<close> with status 500: the lookup of \<^verbatim>\<open>get_hash\<close> raises
  \<^verbatim>\<open>NameError\<close>, which the catch-all handler logs. Nothing but the fetch and the log entry
  happens: no statistics update, no response head, no body. So does every request to
  \<^verbatim>\<open>/watch\<close> or \<^verbatim>\<open>/dl\<close> that reaches the routine, that is, whose message id is an integer
  and whose hash parameter is not empty.
\<close>

theorem serve_routine_always_500:
  assumes "get_messages e (BIN_CHANNEL e) message_id = Inr (Some msg)"
    and "media msg = Some mm"
  shows "g_get_hash server_globals = None \<and> g_request server_globals = None \<and>
         serve_file server_globals e w message_id filename file_hash mode =
           (web_Response ''Internal server error'' 500,
            emit [Fetched (BIN_CHANNEL e) message_id, Logged (NameError ''get_hash'')] w) \<and>
         (\<forall>req h.
            py_int (message_id_seg req) = Inr message_id \<longrightarrow>
            map_of (query req) ''hash'' = Some h \<longrightarrow> h \<noteq> [] \<longrightarrow>
              stream_handler server_globals e w req =
                (Inr (web_Response ''Internal server error'' 500),
                 emit [Fetched (BIN_CHANNEL e) message_id, Logged (NameError ''get_hash'')] w) \<and>
              download_handler server_globals e w req =
                (Inr (web_Response ''Internal server error'' 500),
                 emit [Fetched (BIN_CHANNEL e) message_id, Logged (NameError ''get_hash'')] w))"
proof -
  have sf: "serve_file server_globals e w message_id fn fh md =
           (web_Response ''Internal server error'' 500,
            emit [Fetched (BIN_CHANNEL e) message_id, Logged (NameError ''get_hash'')] w)"
    for fn fh md
    using assms server_globals_unbound(1) by (rule serve_file_unbound_get_hash)
  have "stream_handler server_globals e w req =
          (Inr (web_Response ''Internal server error'' 500),
           emit [Fetched (BIN_CHANNEL e) message_id, Logged (NameError ''get_hash'')] w) \<and>
        download_handler server_globals e w req =
          (Inr (web_Response ''Internal server error'' 500),
           emit [Fetched (BIN_CHANNEL e) message_id, Logged (NameError ''get_hash'')] w)"
    if "py_int (message_id_seg req) = Inr message_id" "map_of (query req) ''hash'' = Some h"
      "h \<noteq> []" for req h
    using route_handler_calls_serve_file [OF that] sf
    by (simp add: stream_handler_def download_handler_def)
  with sf server_globals_unbound show ?thesis by blast
qed

theorem serve_routine_always_500_witness:
  "get_messages (demo_env None) (BIN_CHANNEL (demo_env None)) 123 = Inr (Some movie_message) \<and>
   media movie_message = Some movie \<and>
   download_handler server_globals (demo_env None) (demo_world None)
     (demo_request ''123'' [(''hash'', ''5e33b0d3ff54'')] [(''Range'', ''bytes=0-99'')])
   = (Inr \<lparr>status = 500, headers = [], resp_text = ''Internal server error''\<rparr>,
      \<lparr>session = \<lparr>rows = [movie_row], fault = None\<rparr>,
       trace = [Fetched (- 1001234567890) 123, Logged (NameError ''get_hash'')]\<rparr>)"
proof -
  have a: "get_messages (demo_env None) (BIN_CHANNEL (demo_env None)) 123 = Inr (Some movie_message)"
    by (simp add: demo_env_def)
  have b: "media movie_message = Some movie"
    by (simp add: movie_message_def)
  have c: "py_int (message_id_seg
             (demo_request ''123'' [(''hash'', ''5e33b0d3ff54'')] [(''Range'', ''bytes=0-99'')]))
           = Inr 123"
    by (simp add: demo_request_def py_int_def str_strip_def is_space_def parse_decimal_def
        is_digit_def digit_val_def digit_chars_def)
  have d: "map_of (query
             (demo_request ''123'' [(''hash'', ''5e33b0d3ff54'')] [(''Range'', ''bytes=0-99'')]))
             ''hash'' = Some ''5e33b0d3ff54''"
    by (simp add: demo_request_def)
  have e: "''5e33b0d3ff54'' \<noteq> []" by simp
  from serve_routine_always_500 [OF a b, where w = "demo_world None"] c d e
  have "download_handler server_globals (demo_env None) (demo_world None)
          (demo_request ''123'' [(''hash'', ''5e33b0d3ff54'')] [(''Range'', ''bytes=0-99'')])
        = (Inr (web_Response ''Internal server error'' 500),
           emit [Fetched (BIN_CHANNEL (demo_env None)) 123, Logged (NameError ''get_hash'')]
             (demo_world None))"
    by blast
  then show ?thesis
    using a b by (simp add: web_Response_def emit_def demo_world_def demo_env_def)
qed

section \<open>A Range header that does not parse\<close>

text \<open>
  Claim C3 expects, for a Range header that does not parse, the response of a request
  without Range header: status 200, the total size as \<^verbatim>\<open>Content-Length\<close>, no
  \<^verbatim>\<open>Content-Range\<close>. The range parser does its part: for \<^verbatim>\<open>bytes=abc\<close> its \<^verbatim>\<open>try\<close> block
  raises \<^verbatim>\<open>ValueError\<close> and the parser falls back to the whole file, the bytes 0 to 999 of
  a file of 1000 bytes, which is the interval of a request without Range header. But the
  request \<^verbatim>\<open>GET /watch/123/movie.mp4?hash=5e33b0d3ff54\<close> with the header
  \<^verbatim>\<open>Range: bytes=abc\<close> is answered with status 500 by the server as the source has it, and
  so is the same request without the header: \<^verbatim>\<open>get_hash\<close> is unbound in server.py, and
  the routine stops at line 486, before it reads any header. Neither request gets status
  200 or a byte of the file.
\<close>

theorem malformed_range_not_served:
  "parse_range_try ''bytes=abc'' 1000 = Inl ValueError \<and>
   parse_range ''bytes=abc'' 1000 = (0, 999) \<and>
   stream_handler server_globals (demo_env None) (demo_world None)
       (good_request [(''Range'', ''bytes=abc'')])
     = (Inr \<lparr>status = 500, headers = [], resp_text = ''Internal server error''\<rparr>,
        \<lparr>session = \<lparr>rows = [movie_row], fault = None\<rparr>,
         trace = [Fetched (- 1001234567890) 123, Logged (NameError ''get_hash'')]\<rparr>) \<and>
   stream_handler server_globals (demo_env None) (demo_world None) (good_request [])
     = stream_handler server_globals (demo_env None) (demo_world None)
         (good_request [(''Range'', ''bytes=abc'')])"
proof -
  have with_header: "stream_handler server_globals (demo_env None) (demo_world None)
       (good_request [(''Range'', ''bytes=abc'')])
     = (Inr \<lparr>status = 500, headers = [], resp_text = ''Internal server error''\<rparr>,
        \<lparr>session = \<lparr>rows = [movie_row], fault = None\<rparr>,
         trace = [Fetched (- 1001234567890) 123, Logged (NameError ''get_hash'')]\<rparr>)"
    by (simp add: handler_defs py_int_defs server_globals_unbound demo_env_def demo_world_def
        good_request_def demo_request_def media_movie_message)
  have no_header: "stream_handler server_globals (demo_env None) (demo_world None)
       (good_request [])
     = (Inr \<lparr>status = 500, headers = [], resp_text = ''Internal server error''\<rparr>,
        \<lparr>session = \<lparr>rows = [movie_row], fault = None\<rparr>,
         trace = [Fetched (- 1001234567890) 123, Logged (NameError ''get_hash'')]\<rparr>)"
    by (simp add: handler_defs py_int_defs server_globals_unbound demo_env_def demo_world_def
        good_request_def demo_request_def media_movie_message)
  from with_header no_header parse_range_try_abc parse_range_abc show ?thesis by simp
qed

section \<open>A range that starts beyond the end of the file\<close>




section \<open>The statistics update and the bytes sent\<close>



section \<open>A failing statistics update\<close>



section \<open>A request with a wrong hash\<close>

text \<open>
  Claim C7 expects status 403, no body and no statistics update for a hash that differs
  from the token of the file. The request \<^verbatim>\<open>GET /watch/123/movie.mp4?hash=000000000000\<close>
  has such a hash. The server as the source has it answers 500, not 403: the comparison
  of line 486 is never made, because the lookup of \<^verbatim>\<open>get_hash\<close> raises. No byte is sent and
  no statistics update is made. With the names resolved the same request is answered
  with \<^verbatim>\<open>Invalid hash\<close> and status 403, after the fetch and nothing else.
\<close>

theorem wrong_hash_gets_500:
  "get_hash movie_message \<noteq> ''000000000000'' \<and>
   stream_handler server_globals (demo_env None) (demo_world None)
       (demo_request ''123'' [(''hash'', ''000000000000'')] [])
     = (Inr \<lparr>status = 500, headers = [], resp_text = ''Internal server error''\<rparr>,
        \<lparr>session = \<lparr>rows = [movie_row], fault = None\<rparr>,
         trace = [Fetched (- 1001234567890) 123, Logged (NameError ''get_hash'')]\<rparr>) \<and>
   stream_handler (resolved_globals (demo_request ''123'' [(''hash'', ''000000000000'')] []))
       (demo_env None) (demo_world None)
       (demo_request ''123'' [(''hash'', ''000000000000'')] [])
     = (Inr \<lparr>status = 403, headers = [], resp_text = ''Invalid hash''\<rparr>,
        \<lparr>session = \<lparr>rows = [movie_row], fault = None\<rparr>,
         trace = [Fetched (- 1001234567890) 123]\<rparr>)"
proof -
  have ne: "get_hash movie_message \<noteq> ''000000000000''"
    by (simp add: get_hash_movie)
  have real: "stream_handler server_globals (demo_env None) (demo_world None)
       (demo_request ''123'' [(''hash'', ''000000000000'')] [])
     = (Inr \<lparr>status = 500, headers = [], resp_text = ''Internal server error''\<rparr>,
        \<lparr>session = \<lparr>rows = [movie_row], fault = None\<rparr>,
         trace = [Fetched (- 1001234567890) 123, Logged (NameError ''get_hash'')]\<rparr>)"
    by (simp add: handler_defs py_int_defs server_globals_unbound demo_env_def demo_world_def
        demo_request_def media_movie_message)
  have resolved: "stream_handler
       (resolved_globals (demo_request ''123'' [(''hash'', ''000000000000'')] []))
       (demo_env None) (demo_world None)
       (demo_request ''123'' [(''hash'', ''000000000000'')] [])
     = (Inr \<lparr>status = 403, headers = [], resp_text = ''Invalid hash''\<rparr>,
        \<lparr>session = \<lparr>rows = [movie_row], fault = None\<rparr>,
         trace = [Fetched (- 1001234567890) 123]\<rparr>)"
    by (simp add: get_hash_movie handler_defs py_int_defs resolved_globals_bound demo_env_def
        demo_world_def demo_request_def media_movie_message)
  from ne real resolved show ?thesis by blast
qed

section \<open>The range parser: the intervals it returns\<close>



section \<open>The integrity token\<close>

text \<open>
  Claim C9. For every message that carries media, the token \<^verbatim>\<open>get_hash\<close> computes is the
  first 12 characters of the hexadecimal MD5 digest of the media's \<^verbatim>\<open>file_unique_id\<close>: it
  has length 12 and consists of hexadecimal digits. It depends on nothing but the unique
  identifier: any message whose media has the same \<^verbatim>\<open>file_unique_id\<close> gets the identical
  token, so the comparison of a token issued for the file with the token computed at
  serve time finds them equal.
\<close>

theorem get_hash_token:
  assumes "get_media_from_message m = Some x"
    and "get_media_from_message m' = Some x'"
    and "file_unique_id x' = file_unique_id x"
  shows "get_hash m = take 12 (md5_hexdigest (file_unique_id x)) \<and>
         length (get_hash m) = 12 \<and>
         set (get_hash m) \<subseteq> set hex_chars \<and>
         get_hash m' = get_hash m"
proof -
  have tok: "get_hash m = take 12 (md5_hexdigest (file_unique_id x))"
    using assms(1) by (rule get_hash_Some)
  have "length (get_hash m) = 12"
    by (simp add: tok length_md5_hexdigest)
  moreover have "set (get_hash m) \<subseteq> set hex_chars"
    using set_md5_hexdigest [of "file_unique_id x"] set_take_subset [of 12 "md5_hexdigest (file_unique_id x)"]
    unfolding tok by blast
  moreover have "get_hash m' = get_hash m"
    using assms by (simp add: get_hash_def)
  ultimately show ?thesis using tok by simp
qed

theorem get_hash_token_witness:
  "get_media_from_message movie_message = Some movie \<and>
   get_media_from_message movie_copy = Some movie_doc \<and>
   file_unique_id movie_doc = file_unique_id movie \<and>
   get_hash movie_message = ''5e33b0d3ff54'' \<and>
   length (get_hash movie_message) = 12 \<and>
   get_hash movie_copy = ''5e33b0d3ff54''"
proof -
  have u: "file_unique_id movie_doc = file_unique_id movie"
    by (simp add: movie_doc_def movie_def)
  note t = get_hash_token [OF media_of_movie media_of_copy u]
  have "length (get_hash movie_message) = 12" using t by blast
  moreover have "get_hash movie_copy = get_hash movie_message" using t by blast
  ultimately show ?thesis
    using media_of_movie media_of_copy u get_hash_movie by simp
qed

section \<open>Requests without a hash\<close>

text \<open>
  Claim C10 says that every request to one of the two routes that lacks the hash
  parameter is answered with status 400. The handlers convert the path segment with
  \<^verbatim>\<open>int()\<close> before they look at the query: for the request \<^verbatim>\<open>GET /watch/abc/movie.mp4\<close>
  the conversion raises \<^verbatim>\<open>ValueError\<close>, which leaves the handler, and no response with
  status 400 is returned.
\<close>

theorem missing_hash_counterexample:
  "map_of (query (demo_request ''abc'' [] [])) ''hash'' = None \<and>
   stream_handler server_globals (demo_env None) (demo_world None) (demo_request ''abc'' [] [])
     = (Inl ValueError, demo_world None)"
  by (simp add: stream_handler_def route_handler_def demo_request_def py_int_def str_strip_def
      is_space_def parse_decimal_def is_digit_def digit_chars_def)

text \<open>
  Claim C10, amended. For every request to one of the two routes whose query has no hash
  parameter, the handler leaves the world as it was, so no message is fetched and the
  statistics store is not touched, and there are two outcomes only: the handler returns
  the response \<^verbatim>\<open>Invalid request\<close> with status 400, or the \<^verbatim>\<open>ValueError\<close> of the conversion
  leaves it. When the message id segment is a non-empty string of at most 4300 decimal
  digits (0 to 9), as in every link the bot issues, the outcome is the response with
  status 400. This holds whatever the globals of the module are.
\<close>

theorem missing_hash_400_or_ValueError:
  assumes "map_of (query req) ''hash'' = None"
  shows "snd (stream_handler g e w req) = w \<and>
         snd (download_handler g e w req) = w \<and>
         (fst (stream_handler g e w req) = Inr (web_Response ''Invalid request'' 400) \<or>
          fst (stream_handler g e w req) = Inl ValueError) \<and>
         (fst (download_handler g e w req) = Inr (web_Response ''Invalid request'' 400) \<or>
          fst (download_handler g e w req) = Inl ValueError) \<and>
         (message_id_seg req \<noteq> [] \<longrightarrow> (\<forall>c \<in> set (message_id_seg req). is_digit c) \<longrightarrow>
          length (message_id_seg req) \<le> 4300 \<longrightarrow>
            stream_handler g e w req = (Inr (web_Response ''Invalid request'' 400), w) \<and>
            download_handler g e w req = (Inr (web_Response ''Invalid request'' 400), w))"
proof -
  have rh: "route_handler md g e w req =
              (case py_int (message_id_seg req) of
                 Inl x \<Rightarrow> (Inl ValueError, w)
               | Inr n \<Rightarrow> (Inr (web_Response ''Invalid request'' 400), w))" for md
    using assms py_int_error [of "message_id_seg req"]
    by (simp add: route_handler_def split: sum.split)
  have dig: "route_handler md g e w req = (Inr (web_Response ''Invalid request'' 400), w)"
    if "message_id_seg req \<noteq> []" "\<forall>c \<in> set (message_id_seg req). is_digit c" for md
    using py_int_digits [OF that] by (auto simp: rh)
  show ?thesis
    using dig by (auto simp: stream_handler_def download_handler_def rh split: sum.split)
qed

theorem missing_hash_400_or_ValueError_witness:
  "stream_handler server_globals (demo_env None) (demo_world None) (demo_request ''123'' [] [])
     = (Inr \<lparr>status = 400, headers = [], resp_text = ''Invalid request''\<rparr>,
        \<lparr>session = \<lparr>rows = [movie_row], fault = None\<rparr>, trace = []\<rparr>) \<and>
   download_handler server_globals (demo_env None) (demo_world None) (demo_request ''123'' [] [])
     = (Inr \<lparr>status = 400, headers = [], resp_text = ''Invalid request''\<rparr>,
        \<lparr>session = \<lparr>rows = [movie_row], fault = None\<rparr>, trace = []\<rparr>)"
proof -
  have a: "map_of (query (demo_request ''123'' [] [])) ''hash'' = None"
    by (simp add: demo_request_def)
  have b: "message_id_seg (demo_request ''123'' [] []) \<noteq> []"
    "\<forall>c \<in> set (message_id_seg (demo_request ''123'' [] [])). is_digit c"
    "length (message_id_seg (demo_request ''123'' [] [])) \<le> 4300"
    by (simp_all add: demo_request_def is_digit_def digit_chars_def)
  from missing_hash_400_or_ValueError [OF a, of server_globals "demo_env None" "demo_world None"] b
  show ?thesis
    by (simp add: web_Response_def demo_world_def)
qed

end
